theory Spec2Isabelle
  imports Main
begin

section \<open>Data model of the chatbot notebook\<close>

text \<open>
  The notebook \<^verbatim>\<open>content/05_openai_chatbot_lab.ipynb\<close> keeps a conversation as a Python
  list of dictionaries with the two keys \<^verbatim>\<open>"role"\<close> and \<^verbatim>\<open>"content"\<close>, both strings.
\<close>

record message =
  role :: string
  content :: string

text \<open>
  What the notebook reads from an answer of \<^verbatim>\<open>client.chat.completions.create\<close>:
  \<^verbatim>\<open>response.choices[0].message.content\<close> and the three counters of
  \<^verbatim>\<open>response.usage\<close>. Python integers are unbounded.
\<close>

record usage =
  prompt_tokens :: int
  completion_tokens :: int
  total_tokens :: int

record choice =
  message :: message

record response =
  choices :: "choice list"
  usage :: usage

text \<open>
  With \<^verbatim>\<open>stream=True\<close> the call returns an iterator of chunks; the notebook reads
  \<^verbatim>\<open>chunk.choices[0].delta.content\<close>, which may be \<^verbatim>\<open>None\<close>.
\<close>

record delta =
  delta_content :: "string option"

record chunk_choice =
  delta :: delta

record chunk =
  chunk_choices :: "chunk_choice list"

text \<open>
  The exceptions a cell of the notebook can meet: an index out of range, and a failure
  of the remote service (the client library raises it from \<^verbatim>\<open>create\<close>, or from the
  iterator while a streamed answer is read).
\<close>

datatype service_failure =
  AuthenticationFailed | RateLimited | ContextLengthExceeded | NetworkFailure

datatype error = IndexError | ServiceError service_failure

text \<open>
  A streamed answer is a finite iterator: it is exhausted, or yields a chunk and goes on,
  or raises.
\<close>

datatype chunk_stream =
  Exhausted
  | Yield chunk chunk_stream
  | Raise service_failure

text \<open>
  The keyword arguments of one call of \<^verbatim>\<open>client.chat.completions.create\<close>. The field
  \<open>streamed\<close> is the keyword \<^verbatim>\<open>stream\<close>, absent (false) in the blocking calls.
\<close>

record request =
  model :: string
  messages :: "message list"
  streamed :: bool

text \<open>
  The client is the global \<^verbatim>\<open>client\<close> of the notebook, an object of the OpenAI
  library: it is a parameter of the model. \<open>create\<close> answers the blocking calls,
  \<open>create_stream\<close> the calls with \<^verbatim>\<open>stream=True\<close>.
\<close>

record client =
  create :: "request \<Rightarrow> service_failure + response"
  create_stream :: "request \<Rightarrow> service_failure + chunk_stream"

text \<open>
  The state the functions of the notebook act on: the two global histories, the calls
  made to the service so far (oldest first), and the text printed so far.
  \<^verbatim>\<open>time.sleep\<close> is not modelled.
\<close>

record world =
  conversation_memory :: "message list"
  streaming_conversation :: "message list"
  requests :: "request list"
  stdout :: string

section \<open>Python list operations\<close>

text \<open>Python's \<^verbatim>\<open>xs[i:]\<close>: a negative start counts from the end and is clipped at 0.\<close>

definition py_slice_from :: "'a list \<Rightarrow> int \<Rightarrow> 'a list" where
  "py_slice_from xs i =
     (if i < 0 then drop (nat (max 0 (int (length xs) + i))) xs else drop (nat i) xs)"

section \<open>Trimming and summarising a history\<close>

text \<open>
  \<^verbatim>\<open>
  def trim_conversation(messages, max_messages=10):
      if len(messages) > max_messages + 1:
          system_message = messages[0]
          recent_messages = messages[-(max_messages):]
          return [system_message] + recent_messages
      return messages
  \<close>
  \<^verbatim>\<open>messages[0]\<close> raises IndexError on the empty list.
\<close>

definition trim_conversation :: "message list \<Rightarrow> int \<Rightarrow> error + message list" where
  "trim_conversation msgs max_messages =
     (if int (length msgs) > max_messages + 1 then
        (case msgs of
           [] \<Rightarrow> Inl IndexError
         | system_message # _ \<Rightarrow>
             Inr ([system_message] @ py_slice_from msgs (- max_messages)))
      else Inr msgs)"

text \<open>The spec's words "the last k elements" of a list.\<close>

definition last_elements :: "nat \<Rightarrow> 'a list \<Rightarrow> 'a list" where
  "last_elements k xs = drop (length xs - k) xs"

text \<open>
  \<^verbatim>\<open>
  def summarize_conversation(messages):
      summary_request = client.chat.completions.create(
          model="gpt-3.5-turbo",
          messages=[
              {"role": "system", "content": "Summarize this conversation concisely."},
              *messages
          ]
      )
      summary = summary_request.choices[0].message.content
      return [
          messages[0],  # Keep system message
          {"role": "system", "content": f"Previous conversation summary: {summary}"}
      ]
  \<close>
\<close>

definition summarize_conversation ::
  "client \<Rightarrow> message list \<Rightarrow> world \<Rightarrow> (error + message list) \<times> world" where
  "summarize_conversation cl msgs w =
     (let req = \<lparr>model = ''gpt-3.5-turbo'',
                 messages = \<lparr>role = ''system'',
                              content = ''Summarize this conversation concisely.''\<rparr> # msgs,
                 streamed = False\<rparr>;
          w1 = w\<lparr>requests := requests w @ [req]\<rparr>
      in case create cl req of
           Inl f \<Rightarrow> (Inl (ServiceError f), w1)
         | Inr summary_request \<Rightarrow>
             (case choices summary_request of
                [] \<Rightarrow> (Inl IndexError, w1)
              | c # _ \<Rightarrow>
                  (let summary = content (message c)
                   in case msgs of
                        [] \<Rightarrow> (Inl IndexError, w1)
                      | m # _ \<Rightarrow>
                          (Inr [m, \<lparr>role = ''system'',
                                    content = ''Previous conversation summary: '' @ summary\<rparr>],
                           w1))))"

section \<open>A turn of the conversation with memory\<close>

text \<open>
  \<^verbatim>\<open>
  def chat_with_memory(user_message):
      conversation_memory.append({"role": "user", "content": user_message})
      response = client.chat.completions.create(
          model="gpt-4",
          messages=conversation_memory
      )
      assistant_response = response.choices[0].message.content
      conversation_memory.append({"role": "assistant", "content": assistant_response})
      return assistant_response, response.usage.total_tokens
  \<close>
  An exception leaves the global list as it is at that point, so the model returns the
  state in both cases.
\<close>

definition chat_with_memory ::
  "client \<Rightarrow> string \<Rightarrow> world \<Rightarrow> (error + string \<times> int) \<times> world" where
  "chat_with_memory cl user_message w =
     (let w1 = w\<lparr>conversation_memory :=
                   conversation_memory w @ [\<lparr>role = ''user'', content = user_message\<rparr>]\<rparr>;
          req = \<lparr>model = ''gpt-4'', messages = conversation_memory w1, streamed = False\<rparr>;
          w2 = w1\<lparr>requests := requests w1 @ [req]\<rparr>
      in case create cl req of
           Inl f \<Rightarrow> (Inl (ServiceError f), w2)
         | Inr resp \<Rightarrow>
             (case choices resp of
                [] \<Rightarrow> (Inl IndexError, w2)
              | c # _ \<Rightarrow>
                  (let assistant_response = content (message c);
                       w3 = w2\<lparr>conversation_memory :=
                                 conversation_memory w2 @
                                 [\<lparr>role = ''assistant'', content = assistant_response\<rparr>]\<rparr>
                   in (Inr (assistant_response, total_tokens (usage resp)), w3))))"

section \<open>Streaming\<close>

text \<open>
  The loop over the chunks, shared by \<^verbatim>\<open>stream_response\<close> and
  \<^verbatim>\<open>stream_chat_with_memory\<close>:
  \<^verbatim>\<open>
  for chunk in stream:
      if chunk.choices[0].delta.content is not None:
          content_chunk = chunk.choices[0].delta.content
          full_response += content_chunk
          print(content_chunk, end="", flush=True)
          time.sleep(0.01)
  \<close>
  It takes the text accumulated and the text printed so far, and returns both, or the
  exception with what had been printed.
\<close>

fun process_stream :: "chunk_stream \<Rightarrow> string \<Rightarrow> string \<Rightarrow> (error + string) \<times> string" where
  "process_stream Exhausted full_response out = (Inr full_response, out)"
| "process_stream (Raise f) full_response out = (Inl (ServiceError f), out)"
| "process_stream (Yield c s) full_response out =
     (case chunk_choices c of
        [] \<Rightarrow> (Inl IndexError, out)
      | ch # _ \<Rightarrow>
          (case delta_content (delta ch) of
             None \<Rightarrow> process_stream s full_response out
           | Some content_chunk \<Rightarrow>
               process_stream s (full_response @ content_chunk) (out @ content_chunk)))"

definition newline :: string where
  "newline = [CHR 0x0A]"

text \<open>
  \<^verbatim>\<open>
  def stream_response(user_message):
      stream = client.chat.completions.create(
          model="gpt-4",
          messages=[
              {"role": "system", "content": "You are a helpful assistant."},
              {"role": "user", "content": user_message}
          ],
          stream=True
      )
      print(f"You: {user_message}")
      print("Assistant: ", end="", flush=True)
      full_response = ""
      for chunk in stream: ...
      print("\n")
      return full_response
  \<close>
\<close>

definition stream_response :: "client \<Rightarrow> string \<Rightarrow> world \<Rightarrow> (error + string) \<times> world" where
  "stream_response cl user_message w =
     (let req = \<lparr>model = ''gpt-4'',
                 messages = [\<lparr>role = ''system'', content = ''You are a helpful assistant.''\<rparr>,
                             \<lparr>role = ''user'', content = user_message\<rparr>],
                 streamed = True\<rparr>;
          w1 = w\<lparr>requests := requests w @ [req]\<rparr>
      in case create_stream cl req of
           Inl f \<Rightarrow> (Inl (ServiceError f), w1)
         | Inr s \<Rightarrow>
             (let out = stdout w1 @ ''You: '' @ user_message @ newline @ ''Assistant: ''
              in case process_stream s '''' out of
                   (Inl e, out') \<Rightarrow> (Inl e, w1\<lparr>stdout := out'\<rparr>)
                 | (Inr full_response, out') \<Rightarrow>
                     (Inr full_response, w1\<lparr>stdout := out' @ newline @ newline\<rparr>)))"

text \<open>
  \<^verbatim>\<open>
  def stream_chat_with_memory(user_message):
      streaming_conversation.append({"role": "user", "content": user_message})
      stream = client.chat.completions.create(
          model="gpt-4",
          messages=streaming_conversation,
          stream=True
      )
      print(f"You: {user_message}")
      print("Assistant: ", end="", flush=True)
      assistant_response = ""
      for chunk in stream: ...
      print("\n")
      streaming_conversation.append({"role": "assistant", "content": assistant_response})
      return assistant_response
  \<close>
\<close>

definition stream_chat_with_memory ::
  "client \<Rightarrow> string \<Rightarrow> world \<Rightarrow> (error + string) \<times> world" where
  "stream_chat_with_memory cl user_message w =
     (let w1 = w\<lparr>streaming_conversation :=
                   streaming_conversation w @ [\<lparr>role = ''user'', content = user_message\<rparr>]\<rparr>;
          req = \<lparr>model = ''gpt-4'', messages = streaming_conversation w1, streamed = True\<rparr>;
          w2 = w1\<lparr>requests := requests w1 @ [req]\<rparr>
      in case create_stream cl req of
           Inl f \<Rightarrow> (Inl (ServiceError f), w2)
         | Inr s \<Rightarrow>
             (let out = stdout w2 @ ''You: '' @ user_message @ newline @ ''Assistant: ''
              in case process_stream s '''' out of
                   (Inl e, out') \<Rightarrow> (Inl e, w2\<lparr>stdout := out'\<rparr>)
                 | (Inr assistant_response, out') \<Rightarrow>
                     (Inr assistant_response,
                      w2\<lparr>stdout := out' @ newline @ newline,
                         streaming_conversation :=
                           streaming_conversation w2 @
                           [\<lparr>role = ''assistant'', content = assistant_response\<rparr>]\<rparr>)))"

section \<open>Sample conversations and service stand-ins\<close>

text \<open>The system message every conversation of the notebook starts with.\<close>

definition system_message :: message where
  "system_message = \<lparr>role = ''system'', content = ''You are a helpful assistant.''\<rparr>"

definition user_says :: "string \<Rightarrow> message" where
  "user_says t = \<lparr>role = ''user'', content = t\<rparr>"

definition assistant_says :: "string \<Rightarrow> message" where
  "assistant_says t = \<lparr>role = ''assistant'', content = t\<rparr>"

text \<open>Six exchanges: twelve messages after the system message.\<close>

definition twelve_turns :: "message list" where
  "twelve_turns =
     [user_says ''q1'', assistant_says ''a1'', user_says ''q2'', assistant_says ''a2'',
      user_says ''q3'', assistant_says ''a3'', user_says ''q4'', assistant_says ''a4'',
      user_says ''q5'', assistant_says ''a5'', user_says ''q6'', assistant_says ''a6'']"

text \<open>
  A service that answers every blocking call with one choice, the given reply, and the
  given usage report.
\<close>

definition stub_collaborator :: "string \<Rightarrow> usage \<Rightarrow> client" where
  "stub_collaborator reply u =
     \<lparr>create = (\<lambda>req. Inr \<lparr>choices = [\<lparr>message = assistant_says reply\<rparr>], usage = u\<rparr>),
      create_stream = (\<lambda>req. Inl NetworkFailure)\<rparr>"

text \<open>A service that refuses every call.\<close>

definition failing_client :: "service_failure \<Rightarrow> client" where
  "failing_client f = \<lparr>create = (\<lambda>req. Inl f), create_stream = (\<lambda>req. Inl f)\<rparr>"

text \<open>A service that answers every streamed call with the given iterator.\<close>

definition streaming_client :: "chunk_stream \<Rightarrow> client" where
  "streaming_client s = \<lparr>create = (\<lambda>req. Inl NetworkFailure), create_stream = (\<lambda>req. Inr s)\<rparr>"

text \<open>A chunk whose first choice carries a text fragment.\<close>

definition text_chunk :: "string \<Rightarrow> chunk" where
  "text_chunk f = \<lparr>chunk_choices = [\<lparr>delta = \<lparr>delta_content = Some f\<rparr>\<rparr>]\<rparr>"

text \<open>
  The iterator that yields the fragments \<open>f1, ..., fn\<close> in this order, one chunk each, and
  then ends as \<open>ending\<close> says: exhausted, or raising.
\<close>

fun fragments_stream :: "string list \<Rightarrow> chunk_stream \<Rightarrow> chunk_stream" where
  "fragments_stream [] ending = ending"
| "fragments_stream (f # fs) ending = Yield (text_chunk f) (fragments_stream fs ending)"

text \<open>The failure an iterator ends with, if it does not end exhausted.\<close>

fun stream_failure :: "chunk_stream \<Rightarrow> service_failure option" where
  "stream_failure Exhausted = None"
| "stream_failure (Raise f) = Some f"
| "stream_failure (Yield c s) = stream_failure s"

text \<open>A chunk whose first choice carries no text, as the last chunk of an answer does.\<close>

definition silent_chunk :: chunk where
  "silent_chunk = \<lparr>chunk_choices = [\<lparr>delta = \<lparr>delta_content = None\<rparr>\<rparr>]\<rparr>"

text \<open>Every chunk the iterator yields has a first choice, so that the loop can read it.\<close>

fun well_formed :: "chunk_stream \<Rightarrow> bool" where
  "well_formed Exhausted = True"
| "well_formed (Raise f) = True"
| "well_formed (Yield c s) = (chunk_choices c \<noteq> [] \<and> well_formed s)"

text \<open>
  The fragment sequence \<open>f1, ..., fn\<close> of an iterator: the texts its chunks carry in their
  first choice, in the order of arrival; a chunk that carries none contributes no
  fragment.
\<close>

fun fragments_of :: "chunk_stream \<Rightarrow> string list" where
  "fragments_of Exhausted = []"
| "fragments_of (Raise f) = []"
| "fragments_of (Yield c s) =
     (case chunk_choices c of
        [] \<Rightarrow> fragments_of s
      | ch # _ \<Rightarrow>
          (case delta_content (delta ch) of
             None \<Rightarrow> fragments_of s
           | Some f \<Rightarrow> f # fragments_of s))"

text \<open>The state after the cells that initialise the two histories.\<close>

definition fresh_world :: world where
  "fresh_world =
     \<lparr>conversation_memory = [system_message], streaming_conversation = [system_message],
      requests = [], stdout = ''''\<rparr>"

text \<open>A conversation of twenty-five messages.\<close>

definition long_world :: world where
  "long_world = fresh_world\<lparr>conversation_memory := system_message # twelve_turns @ twelve_turns\<rparr>"

section \<open>Properties of trimming\<close>

lemma py_slice_from_neg:
  "0 < k \<Longrightarrow> py_slice_from xs (- k) = last_elements (nat k) xs"
  by (auto simp: py_slice_from_def last_elements_def max_def nat_diff_distrib' nat_le_iff)

lemma last_elements_Cons:
  "n \<le> length xs \<Longrightarrow> last_elements n (x # xs) = last_elements n xs"
  by (simp add: last_elements_def Suc_diff_le)

lemma last_elements_all: "length xs \<le> n \<Longrightarrow> last_elements n xs = xs"
  by (simp add: last_elements_def)

lemma length_last_elements: "length (last_elements n xs) = min n (length xs)"
  by (simp add: last_elements_def)

lemma trim_conversation_Cons:
  assumes "1 \<le> k"
  shows "trim_conversation (m # ms) k = Inr (m # last_elements (nat k) ms)"
proof (cases "int (length (m # ms)) > k + 1")
  case True
  then have le: "nat k \<le> length ms" by simp
  from True assms show ?thesis
    by (simp add: trim_conversation_def py_slice_from_neg last_elements_Cons [OF le])
next
  case False
  then have "length ms \<le> nat k" by simp
  with False show ?thesis
    by (simp add: trim_conversation_def last_elements_all)
qed

lemma trim_conversation_Nil: "1 \<le> k \<Longrightarrow> trim_conversation [] k = Inr []"
  by (simp add: trim_conversation_def)

text \<open>
  C1, amended to thresholds \<open>k \<ge> 1\<close>: for a history \<open>m # ms\<close> (the system message \<open>m\<close>
  first) \<^verbatim>\<open>trim_conversation\<close> returns \<open>m\<close> followed by the last \<open>k\<close> elements of the tail
  \<open>ms\<close> in their order, a history of at most \<open>k + 1\<close> elements; a history of at most
  \<open>k + 1\<close> elements is returned unchanged.
\<close>

theorem trim_conversation_window:
  assumes "1 \<le> k"
  shows "trim_conversation (m # ms) k = Inr (m # last_elements (nat k) ms)
       \<and> int (length (m # last_elements (nat k) ms)) \<le> k + 1
       \<and> (int (length (m # ms)) \<le> k + 1 \<longrightarrow> trim_conversation (m # ms) k = Inr (m # ms))"
  using assms by (auto simp: trim_conversation_Cons length_last_elements last_elements_all)

text \<open>
  The scenario of C1: one system message and twelve others, threshold 10, gives the
  system message and the last ten of the twelve; a short history is unchanged.
\<close>

theorem trim_conversation_window_witness:
  "(1::int) \<le> 10
   \<and> trim_conversation (system_message # twelve_turns) 10 =
       Inr [system_message, user_says ''q2'', assistant_says ''a2'',
            user_says ''q3'', assistant_says ''a3'', user_says ''q4'', assistant_says ''a4'',
            user_says ''q5'', assistant_says ''a5'', user_says ''q6'', assistant_says ''a6'']
   \<and> trim_conversation [system_message, user_says ''q1''] 10 =
       Inr [system_message, user_says ''q1'']"
  using trim_conversation_window [of 10 system_message twelve_turns]
    trim_conversation_window [of 10 system_message "[user_says ''q1'']"]
  by (simp add: last_elements_def twelve_turns_def)

text \<open>
  C1 as stated, for every threshold, fails at threshold 0: \<^verbatim>\<open>messages[-0:]\<close> is the
  whole list, and the result has three elements where the claim allows one. It fails
  below 0 as well: the first message is kept, so the result cannot have \<open>k + 1 \<le> 0\<close>
  elements.
\<close>

theorem trim_conversation_window_nonpositive_counterexample:
  "trim_conversation [system_message, user_says ''q1''] 0 =
     Inr [system_message, system_message, user_says ''q1'']
   \<and> \<not> int (length [system_message, system_message, user_says ''q1'']) \<le> 0 + 1
   \<and> trim_conversation [system_message] (- 1) = Inr [system_message]
   \<and> \<not> int (length [system_message]) \<le> - 1 + 1"
  by (simp add: trim_conversation_def py_slice_from_def)

text \<open>
  C8, amended to thresholds \<open>k \<ge> 1\<close>: \<^verbatim>\<open>trim_conversation\<close> returns a history, and
  trimming that history again with the same threshold returns it unchanged.
\<close>

theorem trim_conversation_idempotent:
  assumes "1 \<le> k"
  shows "\<exists>r. trim_conversation h k = Inr r \<and> trim_conversation r k = Inr r"
proof (cases h)
  case Nil
  with assms show ?thesis by (simp add: trim_conversation_Nil)
next
  case (Cons m ms)
  have "last_elements (nat k) (last_elements (nat k) ms) = last_elements (nat k) ms"
    by (rule last_elements_all) (simp add: length_last_elements)
  with Cons assms show ?thesis by (simp add: trim_conversation_Cons)
qed

text \<open>
  A history longer than \<open>k + 1\<close>: the first application trims thirteen messages to three,
  the second leaves the three as they are.
\<close>

theorem trim_conversation_idempotent_witness:
  "(1::int) \<le> 2
   \<and> trim_conversation (system_message # twelve_turns) 2 =
       Inr [system_message, user_says ''q6'', assistant_says ''a6'']
   \<and> trim_conversation [system_message, user_says ''q6'', assistant_says ''a6''] 2 =
       Inr [system_message, user_says ''q6'', assistant_says ''a6'']"
proof -
  have k: "(1::int) \<le> 2" by simp
  have once: "trim_conversation (system_message # twelve_turns) 2 =
      Inr [system_message, user_says ''q6'', assistant_says ''a6'']"
    by (simp add: trim_conversation_def py_slice_from_def twelve_turns_def)
  from trim_conversation_idempotent [OF k, of "system_message # twelve_turns"] once k
  show ?thesis by auto
qed

text \<open>
  C8 as stated fails at threshold 0: each application puts one more copy of the first
  message in front. It fails below \<open>- 1\<close> as well, where each application removes
  messages.
\<close>

theorem trim_conversation_idempotent_nonpositive_counterexample:
  "trim_conversation [system_message, user_says ''q1''] 0 =
     Inr [system_message, system_message, user_says ''q1'']
   \<and> trim_conversation [system_message, system_message, user_says ''q1''] 0 =
     Inr [system_message, system_message, system_message, user_says ''q1'']
   \<and> trim_conversation [system_message, system_message, user_says ''q1''] 0 \<noteq>
     Inr [system_message, system_message, user_says ''q1'']
   \<and> trim_conversation [system_message, user_says ''q1'', assistant_says ''a1''] (- 2) =
     Inr [system_message, assistant_says ''a1'']
   \<and> trim_conversation [system_message, assistant_says ''a1''] (- 2) = Inr [system_message]
   \<and> trim_conversation [system_message, assistant_says ''a1''] (- 2) \<noteq>
     Inr [system_message, assistant_says ''a1'']"
  by (simp add: trim_conversation_def py_slice_from_def)

text \<open>
  C9, amended: the notebook has no configuration step and no ConfigurationError.
  \<^verbatim>\<open>trim_conversation\<close> takes a non-positive \<^verbatim>\<open>max_messages\<close> and, on a history that is
  not empty, returns a history: a single message unchanged at 0, and otherwise the first
  message followed by \<^verbatim>\<open>messages[-max_messages:]\<close>, the history without its first
  \<open>- max_messages\<close> elements.
\<close>

theorem trim_conversation_nonpositive_returns:
  assumes "k \<le> 0"
  shows "trim_conversation (m # ms) k =
     Inr (if k = 0 \<and> ms = [] then [m] else m # drop (nat (- k)) (m # ms))"
  using assms by (cases ms) (auto simp: trim_conversation_def py_slice_from_def)

theorem trim_conversation_nonpositive_returns_witness:
  "(- 2 :: int) \<le> 0
   \<and> trim_conversation [system_message, user_says ''q1'', assistant_says ''a1''] (- 2) =
       Inr [system_message, assistant_says ''a1'']"
  using trim_conversation_nonpositive_returns
    [of "- 2" system_message "[user_says ''q1'', assistant_says ''a1'']"]
  by simp

text \<open>
  C9 as stated fails: with \<^verbatim>\<open>max_messages = 0\<close> the function is run and returns a
  history; nothing is raised.
\<close>

theorem trim_conversation_zero_accepted_counterexample:
  "\<not> isl (trim_conversation [system_message, user_says ''q1''] 0)"
  by (simp add: trim_conversation_def py_slice_from_def)

text \<open>
  C10: for a history of more than one element, \<^verbatim>\<open>trim_conversation(messages, 0)\<close> returns
  \<^verbatim>\<open>[messages[0]] + messages\<close>: one element more than the input, with the first message
  twice at the front.
\<close>

theorem trim_conversation_zero_grows:
  assumes "1 < length msgs"
  shows "trim_conversation msgs 0 = Inr ([msgs ! 0] @ msgs)
       \<and> length ([msgs ! 0] @ msgs) = length msgs + 1
       \<and> take 2 ([msgs ! 0] @ msgs) = [msgs ! 0, msgs ! 0]"
  using assms by (cases msgs) (auto simp: trim_conversation_def py_slice_from_def)

theorem trim_conversation_zero_grows_witness:
  "1 < length [system_message, user_says ''q1'']
   \<and> trim_conversation [system_message, user_says ''q1''] 0 =
       Inr [system_message, system_message, user_says ''q1'']"
  using trim_conversation_zero_grows [of "[system_message, user_says ''q1'']"] by simp

section \<open>The outcome of a turn\<close>

lemma chat_with_memory_failure:
  assumes "create cl \<lparr>model = ''gpt-4'',
             messages = conversation_memory w @ [\<lparr>role = ''user'', content = u\<rparr>],
             streamed = False\<rparr> = Inl f"
  shows "chat_with_memory cl u w =
     (Inl (ServiceError f),
      w\<lparr>conversation_memory := conversation_memory w @ [\<lparr>role = ''user'', content = u\<rparr>],
        requests := requests w @
          [\<lparr>model = ''gpt-4'',
            messages = conversation_memory w @ [\<lparr>role = ''user'', content = u\<rparr>],
            streamed = False\<rparr>]\<rparr>)"
  using assms by (simp add: chat_with_memory_def)

lemma chat_with_memory_success:
  assumes "create cl \<lparr>model = ''gpt-4'',
             messages = conversation_memory w @ [\<lparr>role = ''user'', content = u\<rparr>],
             streamed = False\<rparr> = Inr resp"
    and "choices resp = c # cs"
  shows "chat_with_memory cl u w =
     (Inr (content (message c), total_tokens (usage resp)),
      w\<lparr>conversation_memory := conversation_memory w @
          [\<lparr>role = ''user'', content = u\<rparr>,
           \<lparr>role = ''assistant'', content = content (message c)\<rparr>],
        requests := requests w @
          [\<lparr>model = ''gpt-4'',
            messages = conversation_memory w @ [\<lparr>role = ''user'', content = u\<rparr>],
            streamed = False\<rparr>]\<rparr>)"
  using assms by (simp add: chat_with_memory_def Let_def)

lemma chat_with_memory_requests:
  "requests (snd (chat_with_memory cl u w)) =
     requests w @
       [\<lparr>model = ''gpt-4'',
         messages = conversation_memory w @ [\<lparr>role = ''user'', content = u\<rparr>],
         streamed = False\<rparr>]"
  by (simp add: chat_with_memory_def Let_def split: sum.splits list.splits)

text \<open>Reading text fragments appends them, in order, to the text built and printed.\<close>

lemma process_stream_fragments:
  "process_stream (fragments_stream fs ending) acc out =
     process_stream ending (acc @ concat fs) (out @ concat fs)"
  by (induction fs arbitrary: acc out) (simp_all add: text_chunk_def)

lemma process_stream_failure:
  "stream_failure s = Some f \<Longrightarrow>
     fst (process_stream s acc out) = Inl (ServiceError f) \<or>
     fst (process_stream s acc out) = Inl IndexError"
proof (induction s arbitrary: acc out)
  case Exhausted
  then show ?case by simp
next
  case (Yield c s)
  then have "stream_failure s = Some f" by simp
  note IH = Yield.IH [OF this]
  show ?case
  proof (cases "chunk_choices c")
    case Nil
    then show ?thesis by simp
  next
    case (Cons ch chs)
    then show ?thesis
      by (cases "delta_content (delta ch)") (simp_all add: IH)
  qed
next
  case (Raise g)
  then show ?case by simp
qed

lemma stream_chat_with_memory_refused:
  assumes "create_stream cl \<lparr>model = ''gpt-4'',
             messages = streaming_conversation w @ [\<lparr>role = ''user'', content = u\<rparr>],
             streamed = True\<rparr> = Inl f"
  shows "stream_chat_with_memory cl u w =
     (Inl (ServiceError f),
      w\<lparr>streaming_conversation := streaming_conversation w @ [\<lparr>role = ''user'', content = u\<rparr>],
        requests := requests w @
          [\<lparr>model = ''gpt-4'',
            messages = streaming_conversation w @ [\<lparr>role = ''user'', content = u\<rparr>],
            streamed = True\<rparr>]\<rparr>)"
  using assms by (simp add: stream_chat_with_memory_def)

lemma stream_chat_with_memory_error_history:
  assumes "fst (stream_chat_with_memory cl u w) = Inl e"
  shows "streaming_conversation (snd (stream_chat_with_memory cl u w)) =
     streaming_conversation w @ [\<lparr>role = ''user'', content = u\<rparr>]"
  using assms
  by (auto simp: stream_chat_with_memory_def Let_def split: sum.splits prod.splits)

lemma stream_chat_with_memory_result:
  assumes "create_stream cl \<lparr>model = ''gpt-4'',
             messages = streaming_conversation w @ [\<lparr>role = ''user'', content = u\<rparr>],
             streamed = True\<rparr> = Inr s"
  shows "fst (stream_chat_with_memory cl u w) =
     fst (process_stream s '''' (stdout w @ ''You: '' @ u @ newline @ ''Assistant: ''))"
  using assms
  by (auto simp: stream_chat_with_memory_def Let_def split: sum.splits prod.splits)

section \<open>Turns that fail\<close>

text \<open>
  C2: when the service fails during a turn, no assistant message is appended, and the
  history is the input history with the user turn appended. This holds for the blocking
  call of \<^verbatim>\<open>chat_with_memory\<close>, and in \<^verbatim>\<open>stream_chat_with_memory\<close> for a call that is
  refused, for an iterator that raises after any chunks, and for one that raises after
  the text fragments \<open>fs\<close>: what was accumulated is not committed. (A chunk without
  choices stops the loop with IndexError instead; the history is the same.)
\<close>

theorem service_error_leaves_user_turn_only:
  "(create cl \<lparr>model = ''gpt-4'',
       messages = conversation_memory w @ [\<lparr>role = ''user'', content = u\<rparr>],
       streamed = False\<rparr> = Inl f \<longrightarrow>
      fst (chat_with_memory cl u w) = Inl (ServiceError f) \<and>
      conversation_memory (snd (chat_with_memory cl u w)) =
        conversation_memory w @ [\<lparr>role = ''user'', content = u\<rparr>])
   \<and> (create_stream cl \<lparr>model = ''gpt-4'',
       messages = streaming_conversation w @ [\<lparr>role = ''user'', content = u\<rparr>],
       streamed = True\<rparr> = Inl f \<longrightarrow>
      fst (stream_chat_with_memory cl u w) = Inl (ServiceError f) \<and>
      streaming_conversation (snd (stream_chat_with_memory cl u w)) =
        streaming_conversation w @ [\<lparr>role = ''user'', content = u\<rparr>])
   \<and> (create_stream cl \<lparr>model = ''gpt-4'',
       messages = streaming_conversation w @ [\<lparr>role = ''user'', content = u\<rparr>],
       streamed = True\<rparr> = Inr s \<and> stream_failure s = Some f \<longrightarrow>
      (fst (stream_chat_with_memory cl u w) = Inl (ServiceError f) \<or>
       fst (stream_chat_with_memory cl u w) = Inl IndexError) \<and>
      streaming_conversation (snd (stream_chat_with_memory cl u w)) =
        streaming_conversation w @ [\<lparr>role = ''user'', content = u\<rparr>])
   \<and> (create_stream cl \<lparr>model = ''gpt-4'',
       messages = streaming_conversation w @ [\<lparr>role = ''user'', content = u\<rparr>],
       streamed = True\<rparr> = Inr (fragments_stream fs (Raise f)) \<longrightarrow>
      fst (stream_chat_with_memory cl u w) = Inl (ServiceError f) \<and>
      streaming_conversation (snd (stream_chat_with_memory cl u w)) =
        streaming_conversation w @ [\<lparr>role = ''user'', content = u\<rparr>])"
proof (intro conjI impI)
  assume "create cl \<lparr>model = ''gpt-4'',
       messages = conversation_memory w @ [\<lparr>role = ''user'', content = u\<rparr>],
       streamed = False\<rparr> = Inl f"
  note r = chat_with_memory_failure [OF this]
  show "fst (chat_with_memory cl u w) = Inl (ServiceError f)" by (simp add: r)
  show "conversation_memory (snd (chat_with_memory cl u w)) =
        conversation_memory w @ [\<lparr>role = ''user'', content = u\<rparr>]" by (simp add: r)
next
  assume "create_stream cl \<lparr>model = ''gpt-4'',
       messages = streaming_conversation w @ [\<lparr>role = ''user'', content = u\<rparr>],
       streamed = True\<rparr> = Inl f"
  note r = stream_chat_with_memory_refused [OF this]
  show "fst (stream_chat_with_memory cl u w) = Inl (ServiceError f)" by (simp add: r)
  show "streaming_conversation (snd (stream_chat_with_memory cl u w)) =
        streaming_conversation w @ [\<lparr>role = ''user'', content = u\<rparr>]" by (simp add: r)
next
  assume a: "create_stream cl \<lparr>model = ''gpt-4'',
       messages = streaming_conversation w @ [\<lparr>role = ''user'', content = u\<rparr>],
       streamed = True\<rparr> = Inr s \<and> stream_failure s = Some f"
  then have res: "fst (stream_chat_with_memory cl u w) =
     fst (process_stream s '''' (stdout w @ ''You: '' @ u @ newline @ ''Assistant: ''))"
    by (simp add: stream_chat_with_memory_result)
  from a have "stream_failure s = Some f" by simp
  from process_stream_failure [OF this] res
  show e: "fst (stream_chat_with_memory cl u w) = Inl (ServiceError f) \<or>
       fst (stream_chat_with_memory cl u w) = Inl IndexError" by simp
  then show "streaming_conversation (snd (stream_chat_with_memory cl u w)) =
        streaming_conversation w @ [\<lparr>role = ''user'', content = u\<rparr>]"
    using stream_chat_with_memory_error_history by blast
next
  assume a: "create_stream cl \<lparr>model = ''gpt-4'',
       messages = streaming_conversation w @ [\<lparr>role = ''user'', content = u\<rparr>],
       streamed = True\<rparr> = Inr (fragments_stream fs (Raise f))"
  then show e: "fst (stream_chat_with_memory cl u w) = Inl (ServiceError f)"
    by (simp add: stream_chat_with_memory_result process_stream_fragments)
  then show "streaming_conversation (snd (stream_chat_with_memory cl u w)) =
        streaming_conversation w @ [\<lparr>role = ''user'', content = u\<rparr>]"
    by (rule stream_chat_with_memory_error_history)
qed

text \<open>
  A rate-limited service, blocking and streamed, and a stream that breaks after the
  fragments "Hel" and "lo": the history is the system message and the user turn.
\<close>

theorem service_error_leaves_user_turn_only_witness:
  "create (failing_client RateLimited)
      \<lparr>model = ''gpt-4'', messages = [system_message, user_says ''Hi''], streamed = False\<rparr> =
     Inl RateLimited
   \<and> fst (chat_with_memory (failing_client RateLimited) ''Hi'' fresh_world) =
       Inl (ServiceError RateLimited)
   \<and> conversation_memory (snd (chat_with_memory (failing_client RateLimited) ''Hi'' fresh_world)) =
       [system_message, user_says ''Hi'']
   \<and> create_stream (failing_client RateLimited)
      \<lparr>model = ''gpt-4'', messages = [system_message, user_says ''Hi''], streamed = True\<rparr> =
     Inl RateLimited
   \<and> fst (stream_chat_with_memory (failing_client RateLimited) ''Hi'' fresh_world) =
       Inl (ServiceError RateLimited)
   \<and> streaming_conversation
        (snd (stream_chat_with_memory (failing_client RateLimited) ''Hi'' fresh_world)) =
       [system_message, user_says ''Hi'']
   \<and> stream_failure (fragments_stream [''Hel'', ''lo''] (Raise NetworkFailure)) =
       Some NetworkFailure
   \<and> fst (stream_chat_with_memory
            (streaming_client (fragments_stream [''Hel'', ''lo''] (Raise NetworkFailure)))
            ''Hi'' fresh_world) =
       Inl (ServiceError NetworkFailure)
   \<and> streaming_conversation
        (snd (stream_chat_with_memory
            (streaming_client (fragments_stream [''Hel'', ''lo''] (Raise NetworkFailure)))
            ''Hi'' fresh_world)) =
       [system_message, user_says ''Hi'']"
proof -
  let ?failing = "failing_client RateLimited"
  let ?broken = "streaming_client (fragments_stream [''Hel'', ''lo''] (Raise NetworkFailure))"
  have mem: "conversation_memory fresh_world = [system_message]"
    and str: "streaming_conversation fresh_world = [system_message]"
    by (simp_all add: fresh_world_def)
  have blocking: "create ?failing
      \<lparr>model = ''gpt-4'', messages = [system_message, user_says ''Hi''], streamed = False\<rparr> =
     Inl RateLimited"
    and refused: "create_stream ?failing
      \<lparr>model = ''gpt-4'', messages = [system_message, user_says ''Hi''], streamed = True\<rparr> =
     Inl RateLimited"
    by (simp_all add: failing_client_def)
  have midway: "create_stream ?broken
      \<lparr>model = ''gpt-4'', messages = [system_message, user_says ''Hi''], streamed = True\<rparr> =
     Inr (fragments_stream [''Hel'', ''lo''] (Raise NetworkFailure))"
    by (simp add: streaming_client_def)
  have ends: "stream_failure (fragments_stream [''Hel'', ''lo''] (Raise NetworkFailure)) =
       Some NetworkFailure"
    by simp
  note a = service_error_leaves_user_turn_only
    [of ?failing fresh_world "''Hi''" RateLimited]
  note b = service_error_leaves_user_turn_only
    [of ?broken fresh_world "''Hi''" NetworkFailure _ "[''Hel'', ''lo'']"]
  from a blocking refused b midway ends show ?thesis
    by (simp add: mem str user_says_def)
qed

section \<open>Turns that succeed\<close>

text \<open>
  C3: when the call to the service succeeds (it answers, and the answer has a first
  choice, which the function reads), \<^verbatim>\<open>chat_with_memory\<close> returns a text that is the
  content of the last element of the updated history, and the role of that element is
  assistant.
\<close>

theorem chat_with_memory_text_is_last_message:
  assumes "create cl \<lparr>model = ''gpt-4'',
             messages = conversation_memory w @ [\<lparr>role = ''user'', content = u\<rparr>],
             streamed = False\<rparr> = Inr resp"
    and "choices resp = c # cs"
  shows "\<exists>reply tokens w'.
           chat_with_memory cl u w = (Inr (reply, tokens), w')
         \<and> reply = content (message c)
         \<and> conversation_memory w' \<noteq> []
         \<and> content (last (conversation_memory w')) = reply
         \<and> role (last (conversation_memory w')) = ''assistant''"
  by (simp add: chat_with_memory_success [OF assms])

theorem chat_with_memory_text_is_last_message_witness:
  "create (stub_collaborator ''Hello!''
        \<lparr>prompt_tokens = 5, completion_tokens = 3, total_tokens = 8\<rparr>)
      \<lparr>model = ''gpt-4'', messages = [system_message, user_says ''Hi''], streamed = False\<rparr> =
     Inr \<lparr>choices = [\<lparr>message = assistant_says ''Hello!''\<rparr>],
          usage = \<lparr>prompt_tokens = 5, completion_tokens = 3, total_tokens = 8\<rparr>\<rparr>
   \<and> (\<exists>tokens w'.
         chat_with_memory (stub_collaborator ''Hello!''
             \<lparr>prompt_tokens = 5, completion_tokens = 3, total_tokens = 8\<rparr>) ''Hi'' fresh_world =
           (Inr (''Hello!'', tokens), w')
       \<and> last (conversation_memory w') = assistant_says ''Hello!'')"
proof -
  let ?u = "\<lparr>prompt_tokens = 5, completion_tokens = 3, total_tokens = 8\<rparr>"
  let ?resp = "\<lparr>choices = [\<lparr>message = assistant_says ''Hello!''\<rparr>], usage = ?u\<rparr>"
  have call: "create (stub_collaborator ''Hello!'' ?u)
      \<lparr>model = ''gpt-4'',
        messages = conversation_memory fresh_world @ [\<lparr>role = ''user'', content = ''Hi''\<rparr>],
        streamed = False\<rparr> = Inr ?resp"
    by (simp add: stub_collaborator_def)
  have first: "choices ?resp = \<lparr>message = assistant_says ''Hello!''\<rparr> # []" by simp
  from chat_with_memory_text_is_last_message [OF call first]
  obtain reply tokens w' where
    r: "chat_with_memory (stub_collaborator ''Hello!'' ?u) ''Hi'' fresh_world =
          (Inr (reply, tokens), w')"
    and t: "reply = content (message \<lparr>message = assistant_says ''Hello!''\<rparr>)"
    and ne: "conversation_memory w' \<noteq> []"
    and c: "content (last (conversation_memory w')) = reply"
    and a: "role (last (conversation_memory w')) = ''assistant''"
    by blast
  from t have t': "reply = ''Hello!''" by (simp add: assistant_says_def)
  from c a t' have "last (conversation_memory w') = assistant_says ''Hello!''"
    by (simp add: assistant_says_def)
  with r t' call show ?thesis
    by (auto simp: fresh_world_def user_says_def stub_collaborator_def)
qed

text \<open>
  C4, amended: \<^verbatim>\<open>chat_with_memory\<close> applies no window policy. Whatever the length of
  the history, it makes one call to the service, with the model gpt-4 and the whole
  history followed by the user turn.
\<close>

theorem chat_with_memory_sends_whole_history:
  "requests (snd (chat_with_memory cl u w)) =
     requests w @
       [\<lparr>model = ''gpt-4'',
         messages = conversation_memory w @ [\<lparr>role = ''user'', content = u\<rparr>],
         streamed = False\<rparr>]"
  by (rule chat_with_memory_requests)

text \<open>
  C4 as stated fails on a history of twenty-five messages: the only call made carries
  all twenty-six messages, not the eleven that \<^verbatim>\<open>trim_conversation\<close> would keep, and no
  call for a summary is made.
\<close>

theorem chat_with_memory_no_window_counterexample:
  "requests (snd (chat_with_memory
       (stub_collaborator ''Hello!'' \<lparr>prompt_tokens = 5, completion_tokens = 3, total_tokens = 8\<rparr>)
       ''Hi'' long_world)) =
     [\<lparr>model = ''gpt-4'',
       messages = system_message # twelve_turns @ twelve_turns @ [user_says ''Hi''],
       streamed = False\<rparr>]
   \<and> length (system_message # twelve_turns @ twelve_turns @ [user_says ''Hi'']) = 26
   \<and> trim_conversation (system_message # twelve_turns @ twelve_turns @ [user_says ''Hi'']) 10 \<noteq>
       Inr (system_message # twelve_turns @ twelve_turns @ [user_says ''Hi''])"
proof (intro conjI)
  show "requests (snd (chat_with_memory
       (stub_collaborator ''Hello!'' \<lparr>prompt_tokens = 5, completion_tokens = 3, total_tokens = 8\<rparr>)
       ''Hi'' long_world)) =
     [\<lparr>model = ''gpt-4'',
       messages = system_message # twelve_turns @ twelve_turns @ [user_says ''Hi''],
       streamed = False\<rparr>]"
    by (simp add: chat_with_memory_requests long_world_def fresh_world_def user_says_def)
  show len: "length (system_message # twelve_turns @ twelve_turns @ [user_says ''Hi'']) = 26"
    by (simp add: twelve_turns_def)
  have "trim_conversation (system_message # twelve_turns @ twelve_turns @ [user_says ''Hi'']) 10 =
     Inr (system_message # last_elements (nat 10) (twelve_turns @ twelve_turns @ [user_says ''Hi'']))"
    by (rule trim_conversation_Cons) simp
  moreover have "length (system_message #
      last_elements (nat 10) (twelve_turns @ twelve_turns @ [user_says ''Hi''])) = 11"
    by (simp add: length_last_elements twelve_turns_def)
  ultimately have "trim_conversation
      (system_message # twelve_turns @ twelve_turns @ [user_says ''Hi'']) 10 = Inr r \<Longrightarrow>
      length r = 11" for r
    by auto
  with len show "trim_conversation
      (system_message # twelve_turns @ twelve_turns @ [user_says ''Hi'']) 10 \<noteq>
       Inr (system_message # twelve_turns @ twelve_turns @ [user_says ''Hi''])"
    by fastforce
qed

section \<open>Streamed turns\<close>

lemma stream_chat_with_memory_success:
  assumes "create_stream cl \<lparr>model = ''gpt-4'',
             messages = streaming_conversation w @ [\<lparr>role = ''user'', content = u\<rparr>],
             streamed = True\<rparr> = Inr s"
    and "process_stream s '''' (stdout w @ ''You: '' @ u @ newline @ ''Assistant: '') =
           (Inr answer, out)"
  shows "stream_chat_with_memory cl u w =
     (Inr answer,
      w\<lparr>streaming_conversation := streaming_conversation w @
          [\<lparr>role = ''user'', content = u\<rparr>, \<lparr>role = ''assistant'', content = answer\<rparr>],
        requests := requests w @
          [\<lparr>model = ''gpt-4'',
            messages = streaming_conversation w @ [\<lparr>role = ''user'', content = u\<rparr>],
            streamed = True\<rparr>],
        stdout := out @ newline @ newline\<rparr>)"
  using assms by (simp add: stream_chat_with_memory_def Let_def)

lemma stream_response_success:
  assumes "create_stream cl \<lparr>model = ''gpt-4'',
             messages = [\<lparr>role = ''system'', content = ''You are a helpful assistant.''\<rparr>,
                         \<lparr>role = ''user'', content = u\<rparr>],
             streamed = True\<rparr> = Inr s"
    and "process_stream s '''' (stdout w @ ''You: '' @ u @ newline @ ''Assistant: '') =
           (Inr answer, out)"
  shows "stream_response cl u w =
     (Inr answer,
      w\<lparr>requests := requests w @
          [\<lparr>model = ''gpt-4'',
            messages = [\<lparr>role = ''system'', content = ''You are a helpful assistant.''\<rparr>,
                        \<lparr>role = ''user'', content = u\<rparr>],
            streamed = True\<rparr>],
        stdout := out @ newline @ newline\<rparr>)"
  using assms by (simp add: stream_response_def Let_def)

text \<open>
  The loop on an iterator whose chunks all have a first choice: the texts are appended
  in the order of arrival, to the text built and to the text printed, and a chunk with
  no text changes neither; the loop ends with the text built, or with the failure the
  iterator raises.
\<close>

lemma process_stream_well_formed:
  assumes "well_formed s"
  shows "process_stream s acc out =
     (case stream_failure s of
        None \<Rightarrow> Inr (acc @ concat (fragments_of s))
      | Some f \<Rightarrow> Inl (ServiceError f),
      out @ concat (fragments_of s))"
  using assms
proof (induction s arbitrary: acc out)
  case Exhausted
  show ?case by simp
next
  case (Yield c s)
  then have wf: "well_formed s" and ne: "chunk_choices c \<noteq> []" by simp_all
  from ne obtain ch chs where c: "chunk_choices c = ch # chs"
    by (cases "chunk_choices c") auto
  show ?case
  proof (cases "delta_content (delta ch)")
    case None
    with c Yield.IH [OF wf] show ?thesis by (simp split: option.split)
  next
    case (Some f)
    with c Yield.IH [OF wf] show ?thesis by (simp split: option.split)
  qed
next
  case (Raise f)
  show ?case by simp
qed

text \<open>
  C5: for every streamed answer that arrives without failure (each chunk has a first
  choice, with or without text, and the iterator ends exhausted), with the fragment
  sequence \<open>f1, ..., fn\<close> of its chunks, \<^verbatim>\<open>stream_chat_with_memory\<close> returns
  \<open>f1 + ... + fn\<close> and appends it as the assistant message after the user turn: no
  fragment is dropped or moved. The append comes after the last chunk only: if the
  iterator raises instead of ending, whatever fragments came before, no assistant
  message is appended. \<^verbatim>\<open>stream_response\<close> returns the same concatenation. Every
  finite sequence \<open>fs\<close> of texts is the fragment sequence of such an answer.
\<close>

theorem streamed_fragments_concatenated:
  "(create_stream cl \<lparr>model = ''gpt-4'',
       messages = streaming_conversation w @ [\<lparr>role = ''user'', content = u\<rparr>],
       streamed = True\<rparr> = Inr s \<and> well_formed s \<and> stream_failure s = None \<longrightarrow>
      fst (stream_chat_with_memory cl u w) = Inr (concat (fragments_of s)) \<and>
      streaming_conversation (snd (stream_chat_with_memory cl u w)) =
        streaming_conversation w @
        [\<lparr>role = ''user'', content = u\<rparr>,
         \<lparr>role = ''assistant'', content = concat (fragments_of s)\<rparr>])
   \<and> (create_stream cl \<lparr>model = ''gpt-4'',
       messages = streaming_conversation w @ [\<lparr>role = ''user'', content = u\<rparr>],
       streamed = True\<rparr> = Inr s \<and> well_formed s \<and> stream_failure s = Some f \<longrightarrow>
      fst (stream_chat_with_memory cl u w) = Inl (ServiceError f) \<and>
      streaming_conversation (snd (stream_chat_with_memory cl u w)) =
        streaming_conversation w @ [\<lparr>role = ''user'', content = u\<rparr>])
   \<and> (create_stream cl \<lparr>model = ''gpt-4'',
       messages = [\<lparr>role = ''system'', content = ''You are a helpful assistant.''\<rparr>,
                   \<lparr>role = ''user'', content = u\<rparr>],
       streamed = True\<rparr> = Inr s \<and> well_formed s \<and> stream_failure s = None \<longrightarrow>
      fst (stream_response cl u w) = Inr (concat (fragments_of s)))
   \<and> well_formed (fragments_stream fs Exhausted)
   \<and> stream_failure (fragments_stream fs Exhausted) = None
   \<and> fragments_of (fragments_stream fs Exhausted) = fs"
proof (intro conjI impI)
  let ?out = "stdout w @ ''You: '' @ u @ newline @ ''Assistant: ''"
  {
    assume a: "create_stream cl \<lparr>model = ''gpt-4'',
       messages = streaming_conversation w @ [\<lparr>role = ''user'', content = u\<rparr>],
       streamed = True\<rparr> = Inr s \<and> well_formed s \<and> stream_failure s = None"
    then have run: "process_stream s '''' ?out =
        (Inr (concat (fragments_of s)), ?out @ concat (fragments_of s))"
      by (simp add: process_stream_well_formed)
    from a have call: "create_stream cl \<lparr>model = ''gpt-4'',
       messages = streaming_conversation w @ [\<lparr>role = ''user'', content = u\<rparr>],
       streamed = True\<rparr> = Inr s" by simp
    note r = stream_chat_with_memory_success [OF call run]
    show "fst (stream_chat_with_memory cl u w) = Inr (concat (fragments_of s))"
      by (simp add: r)
    show "streaming_conversation (snd (stream_chat_with_memory cl u w)) =
        streaming_conversation w @
        [\<lparr>role = ''user'', content = u\<rparr>,
         \<lparr>role = ''assistant'', content = concat (fragments_of s)\<rparr>]"
      by (simp add: r)
  }
  {
    assume a: "create_stream cl \<lparr>model = ''gpt-4'',
       messages = streaming_conversation w @ [\<lparr>role = ''user'', content = u\<rparr>],
       streamed = True\<rparr> = Inr s \<and> well_formed s \<and> stream_failure s = Some f"
    then show e: "fst (stream_chat_with_memory cl u w) = Inl (ServiceError f)"
      by (simp add: stream_chat_with_memory_result process_stream_well_formed)
    then show "streaming_conversation (snd (stream_chat_with_memory cl u w)) =
        streaming_conversation w @ [\<lparr>role = ''user'', content = u\<rparr>]"
      by (rule stream_chat_with_memory_error_history)
  }
  {
    assume a: "create_stream cl \<lparr>model = ''gpt-4'',
       messages = [\<lparr>role = ''system'', content = ''You are a helpful assistant.''\<rparr>,
                   \<lparr>role = ''user'', content = u\<rparr>],
       streamed = True\<rparr> = Inr s \<and> well_formed s \<and> stream_failure s = None"
    then have run: "process_stream s '''' ?out =
        (Inr (concat (fragments_of s)), ?out @ concat (fragments_of s))"
      by (simp add: process_stream_well_formed)
    from a have call: "create_stream cl \<lparr>model = ''gpt-4'',
       messages = [\<lparr>role = ''system'', content = ''You are a helpful assistant.''\<rparr>,
                   \<lparr>role = ''user'', content = u\<rparr>],
       streamed = True\<rparr> = Inr s" by simp
    note r = stream_response_success [OF call run]
    show "fst (stream_response cl u w) = Inr (concat (fragments_of s))" by (simp add: r)
  }
  show "well_formed (fragments_stream fs Exhausted)"
    by (induction fs) (simp_all add: text_chunk_def)
  show "stream_failure (fragments_stream fs Exhausted) = None"
    by (induction fs) simp_all
  show "fragments_of (fragments_stream fs Exhausted) = fs"
    by (induction fs) (simp_all add: text_chunk_def)
qed

text \<open>
  An answer in five chunks, "Hel", "lo", one without text, "!", and a last one without
  text: the turn returns "Hello!" and appends it. The same kind of chunks followed by a
  network failure leave the history at the user turn.
\<close>

theorem streamed_fragments_concatenated_witness:
  "well_formed (Yield (text_chunk ''Hel'') (Yield (text_chunk ''lo'')
      (Yield silent_chunk (Yield (text_chunk ''!'') (Yield silent_chunk Exhausted)))))
   \<and> stream_failure (Yield (text_chunk ''Hel'') (Yield (text_chunk ''lo'')
      (Yield silent_chunk (Yield (text_chunk ''!'') (Yield silent_chunk Exhausted))))) = None
   \<and> fragments_of (Yield (text_chunk ''Hel'') (Yield (text_chunk ''lo'')
      (Yield silent_chunk (Yield (text_chunk ''!'') (Yield silent_chunk Exhausted))))) =
       [''Hel'', ''lo'', ''!'']
   \<and> fst (stream_chat_with_memory
        (streaming_client (Yield (text_chunk ''Hel'') (Yield (text_chunk ''lo'')
          (Yield silent_chunk (Yield (text_chunk ''!'') (Yield silent_chunk Exhausted))))))
        ''Hi'' fresh_world) =
     Inr ''Hello!''
   \<and> streaming_conversation (snd (stream_chat_with_memory
        (streaming_client (Yield (text_chunk ''Hel'') (Yield (text_chunk ''lo'')
          (Yield silent_chunk (Yield (text_chunk ''!'') (Yield silent_chunk Exhausted))))))
        ''Hi'' fresh_world)) =
     [system_message, user_says ''Hi'', assistant_says ''Hello!'']
   \<and> stream_failure (Yield (text_chunk ''Hel'') (Yield silent_chunk
        (Yield (text_chunk ''lo'') (Raise NetworkFailure)))) = Some NetworkFailure
   \<and> fst (stream_chat_with_memory
        (streaming_client (Yield (text_chunk ''Hel'') (Yield silent_chunk
          (Yield (text_chunk ''lo'') (Raise NetworkFailure)))))
        ''Hi'' fresh_world) =
     Inl (ServiceError NetworkFailure)
   \<and> streaming_conversation (snd (stream_chat_with_memory
        (streaming_client (Yield (text_chunk ''Hel'') (Yield silent_chunk
          (Yield (text_chunk ''lo'') (Raise NetworkFailure)))))
        ''Hi'' fresh_world)) =
     [system_message, user_says ''Hi'']
   \<and> fst (stream_response
        (streaming_client (Yield (text_chunk ''Hel'') (Yield (text_chunk ''lo'')
          (Yield silent_chunk (Yield (text_chunk ''!'') (Yield silent_chunk Exhausted))))))
        ''Hi'' fresh_world) =
     Inr ''Hello!''"
proof -
  let ?whole = "Yield (text_chunk ''Hel'') (Yield (text_chunk ''lo'')
      (Yield silent_chunk (Yield (text_chunk ''!'') (Yield silent_chunk Exhausted))))"
  let ?broken = "Yield (text_chunk ''Hel'') (Yield silent_chunk
      (Yield (text_chunk ''lo'') (Raise NetworkFailure)))"
  have str: "streaming_conversation fresh_world = [system_message]"
    by (simp add: fresh_world_def)
  have call: "\<And>s req. create_stream (streaming_client s) req = Inr s"
    by (simp add: streaming_client_def)
  have whole: "well_formed ?whole" "stream_failure ?whole = None"
    "fragments_of ?whole = [''Hel'', ''lo'', ''!'']"
    by (simp_all add: text_chunk_def silent_chunk_def)
  have broken: "well_formed ?broken" "stream_failure ?broken = Some NetworkFailure"
    by (simp_all add: text_chunk_def silent_chunk_def)
  note a = streamed_fragments_concatenated
    [of "streaming_client ?whole" fresh_world "''Hi''" ?whole]
  note b = streamed_fragments_concatenated
    [of "streaming_client ?broken" fresh_world "''Hi''" ?broken NetworkFailure]
  from a b whole broken show ?thesis
    by (simp add: call str user_says_def assistant_says_def system_message_def)
qed

section \<open>Summaries\<close>

text \<open>
  C6: for a history \<open>m # ms\<close>, \<^verbatim>\<open>summarize_conversation\<close> calls the service with the
  instruction to summarize the conversation concisely followed by every message of the
  history; when the service answers (with a first choice), the result has exactly two
  elements: \<open>m\<close> unchanged, and a system message whose content is
  "Previous conversation summary: " followed by the summary.
\<close>

theorem summarize_conversation_result:
  assumes "create cl \<lparr>model = ''gpt-3.5-turbo'',
             messages = \<lparr>role = ''system'',
                          content = ''Summarize this conversation concisely.''\<rparr> # m # ms,
             streamed = False\<rparr> = Inr resp"
    and "choices resp = c # cs"
  shows "summarize_conversation cl (m # ms) w =
     (Inr [m, \<lparr>role = ''system'',
               content = ''Previous conversation summary: '' @ content (message c)\<rparr>],
      w\<lparr>requests := requests w @
          [\<lparr>model = ''gpt-3.5-turbo'',
            messages = \<lparr>role = ''system'',
                         content = ''Summarize this conversation concisely.''\<rparr> # m # ms,
            streamed = False\<rparr>]\<rparr>)"
  using assms by (simp add: summarize_conversation_def Let_def)

theorem summarize_conversation_result_witness:
  "create (stub_collaborator ''A greeting.''
        \<lparr>prompt_tokens = 5, completion_tokens = 3, total_tokens = 8\<rparr>)
      \<lparr>model = ''gpt-3.5-turbo'',
        messages = [\<lparr>role = ''system'', content = ''Summarize this conversation concisely.''\<rparr>,
                    system_message, user_says ''q1'', assistant_says ''a1''],
        streamed = False\<rparr> =
     Inr \<lparr>choices = [\<lparr>message = assistant_says ''A greeting.''\<rparr>],
          usage = \<lparr>prompt_tokens = 5, completion_tokens = 3, total_tokens = 8\<rparr>\<rparr>
   \<and> summarize_conversation
        (stub_collaborator ''A greeting.''
          \<lparr>prompt_tokens = 5, completion_tokens = 3, total_tokens = 8\<rparr>)
        [system_message, user_says ''q1'', assistant_says ''a1''] fresh_world =
     (Inr [system_message,
           \<lparr>role = ''system'', content = ''Previous conversation summary: A greeting.''\<rparr>],
      fresh_world\<lparr>requests :=
        [\<lparr>model = ''gpt-3.5-turbo'',
          messages = [\<lparr>role = ''system'', content = ''Summarize this conversation concisely.''\<rparr>,
                      system_message, user_says ''q1'', assistant_says ''a1''],
          streamed = False\<rparr>]\<rparr>)"
proof -
  let ?u = "\<lparr>prompt_tokens = 5, completion_tokens = 3, total_tokens = 8\<rparr>"
  let ?resp = "\<lparr>choices = [\<lparr>message = assistant_says ''A greeting.''\<rparr>], usage = ?u\<rparr>"
  have call: "\<And>req. create (stub_collaborator ''A greeting.'' ?u) req = Inr ?resp"
    by (simp add: stub_collaborator_def)
  have first: "choices ?resp = \<lparr>message = assistant_says ''A greeting.''\<rparr> # []" by simp
  from summarize_conversation_result
    [where m = system_message and ms = "[user_says ''q1'', assistant_says ''a1'']"
       and w = fresh_world, OF call first] call
  show ?thesis
    by (simp add: assistant_says_def fresh_world_def)
qed

section \<open>Token usage\<close>

text \<open>
  C7, amended: of the usage report of the service, a successful turn of
  \<^verbatim>\<open>chat_with_memory\<close> returns the counter \<^verbatim>\<open>total_tokens\<close>, unmodified, beside the text; the
  history gains the user turn and the assistant turn.
\<close>

theorem chat_with_memory_returns_total_tokens:
  assumes "create cl \<lparr>model = ''gpt-4'',
             messages = conversation_memory w @ [\<lparr>role = ''user'', content = u\<rparr>],
             streamed = False\<rparr> = Inr resp"
    and "choices resp = c # cs"
  shows "fst (chat_with_memory cl u w) = Inr (content (message c), total_tokens (usage resp))
       \<and> conversation_memory (snd (chat_with_memory cl u w)) =
           conversation_memory w @
           [\<lparr>role = ''user'', content = u\<rparr>,
            \<lparr>role = ''assistant'', content = content (message c)\<rparr>]"
  by (simp add: chat_with_memory_success [OF assms])

text \<open>
  The scenario of C7: the stub answers "Hello!" with usage 5, 3, 8 on the fresh history;
  the caller receives 8.
\<close>

theorem chat_with_memory_returns_total_tokens_witness:
  "create (stub_collaborator ''Hello!''
        \<lparr>prompt_tokens = 5, completion_tokens = 3, total_tokens = 8\<rparr>)
      \<lparr>model = ''gpt-4'', messages = [system_message, user_says ''Hi''], streamed = False\<rparr> =
     Inr \<lparr>choices = [\<lparr>message = assistant_says ''Hello!''\<rparr>],
          usage = \<lparr>prompt_tokens = 5, completion_tokens = 3, total_tokens = 8\<rparr>\<rparr>
   \<and> fst (chat_with_memory (stub_collaborator ''Hello!''
        \<lparr>prompt_tokens = 5, completion_tokens = 3, total_tokens = 8\<rparr>) ''Hi'' fresh_world) =
     Inr (''Hello!'', 8)
   \<and> conversation_memory (snd (chat_with_memory (stub_collaborator ''Hello!''
        \<lparr>prompt_tokens = 5, completion_tokens = 3, total_tokens = 8\<rparr>) ''Hi'' fresh_world)) =
     [system_message, user_says ''Hi'', assistant_says ''Hello!'']"
proof -
  let ?u = "\<lparr>prompt_tokens = 5, completion_tokens = 3, total_tokens = 8\<rparr>"
  let ?resp = "\<lparr>choices = [\<lparr>message = assistant_says ''Hello!''\<rparr>], usage = ?u\<rparr>"
  have call: "\<And>req. create (stub_collaborator ''Hello!'' ?u) req = Inr ?resp"
    by (simp add: stub_collaborator_def)
  have first: "choices ?resp = \<lparr>message = assistant_says ''Hello!''\<rparr> # []" by simp
  from chat_with_memory_returns_total_tokens
    [where w = fresh_world and u = "''Hi''", OF call first] call
  show ?thesis
    by (simp add: assistant_says_def user_says_def fresh_world_def)
qed

text \<open>
  C7 as stated fails: two usage reports that differ in the prompt and completion
  counters give the caller the same value, so the report is not forwarded whole.
\<close>

theorem chat_with_memory_usage_counterexample:
  "fst (chat_with_memory (stub_collaborator ''Hello!''
        \<lparr>prompt_tokens = 5, completion_tokens = 3, total_tokens = 8\<rparr>) ''Hi'' fresh_world) =
     Inr (''Hello!'', 8)
   \<and> fst (chat_with_memory (stub_collaborator ''Hello!''
        \<lparr>prompt_tokens = 2, completion_tokens = 6, total_tokens = 8\<rparr>) ''Hi'' fresh_world) =
     Inr (''Hello!'', 8)
   \<and> \<lparr>prompt_tokens = 5, completion_tokens = 3, total_tokens = 8\<rparr> \<noteq>
       \<lparr>prompt_tokens = 2, completion_tokens = 6, total_tokens = (8::int)\<rparr>"
  by (simp add: chat_with_memory_def stub_collaborator_def assistant_says_def Let_def)

end
